theory Spec2Isabelle
  imports Main "HOL-Library.Word" "HOL-Library.Multiset"
begin

unbundle bit_operations_syntax

section \<open>Kernel interfaces used by the driver\<close>

text \<open>
  The driver returns \<open>0\<close> or a negated errno. A return of \<open>0\<close> is \<open>Inr\<close> (carrying what
  the call wrote back to the caller), a negated errno is \<open>Inl\<close>.
\<close>

datatype errno = EFAULT | EINVAL | ENOMEM | ENOSPC | ENODEV | EIO | ETIMEDOUT

text \<open>
  A \<open>void __user *arg\<close>: \<open>copy_from_user\<close> yields the structure stored there or
  faults, \<open>copy_to_user\<close> succeeds or faults.
\<close>

datatype 'a user_ptr = UserPtr (readable: "'a option") (writable: bool)

definition copy_from_user :: "'a user_ptr \<Rightarrow> 'a option" where
  "copy_from_user p = readable p"

definition copy_to_user :: "'a user_ptr \<Rightarrow> 'a \<Rightarrow> bool" where
  "copy_to_user p v = writable p"

subsection \<open>The kernel's ID allocator\<close>

text \<open>
  \<open>struct idr\<close> of \<open>linux/idr.h\<close>: a table from integer IDs to pointers. \<open>idr_alloc\<close>
  stores the pointer under the lowest unused ID in \<open>[start, end)\<close>, where \<open>end \<le> 0\<close> stands
  for \<open>INT_MAX + 1\<close>; it returns \<open>-ENOSPC\<close> when the range has no free ID and \<open>-ENOMEM\<close> when
  its own node allocation fails (the flag \<open>mem_ok\<close>). \<open>idr_find\<close> and \<open>idr_remove\<close>
  take an \<open>unsigned long\<close> ID.
\<close>

type_synonym 'a idr = "(nat \<times> 'a) list"

definition INT_MAX :: nat where
  "INT_MAX = 2147483647"

definition idr_init :: "'a idr" where
  "idr_init = []"

definition idr_find :: "'a idr \<Rightarrow> 64 word \<Rightarrow> 'a option" where
  "idr_find idr ident = map_of idr (unat ident)"

definition idr_remove :: "'a idr \<Rightarrow> 64 word \<Rightarrow> 'a idr" where
  "idr_remove idr ident = filter (\<lambda>e. fst e \<noteq> unat ident) idr"

definition idr_get_free :: "'a idr \<Rightarrow> nat \<Rightarrow> nat option" where
  "idr_get_free idr start =
     find (\<lambda>i. i \<notin> fst ` set idr) [start ..< start + length idr + 1]"

definition idr_alloc :: "'a idr \<Rightarrow> 'a \<Rightarrow> nat \<Rightarrow> int \<Rightarrow> bool \<Rightarrow> errno + (nat \<times> 'a idr)" where
  "idr_alloc idr ptr start end mem_ok =
     (let maxid = (if 0 < end then nat end - 1 else INT_MAX) in
      case idr_get_free idr start of
        None \<Rightarrow> Inl ENOSPC
      | Some ident \<Rightarrow>
          if maxid < ident then Inl ENOSPC
          else if mem_ok then Inr (ident, (ident, ptr) # idr)
          else Inl ENOMEM)"

section \<open>The main module: \<open>ai_accel.c\<close>\<close>

record ai_device_caps =
  version :: "32 word"
  hw_version :: "32 word"
  num_engines :: "32 word"
  max_batch_size :: "32 word"
  memory_size :: "64 word"
  max_alloc_size :: "64 word"
  features :: "32 word"

record ai_buffer =
  cpu_addr :: "64 word"
  dma_addr :: "64 word"
  buf_size :: "64 word"
  buf_flags :: "32 word"

record ai_model =
  data :: "64 word"
  model_sz :: "64 word"
  model_fl :: "32 word"

text \<open>\<open>fence_counter\<close> is an \<open>atomic_t\<close>, a 32-bit integer that wraps.\<close>

record ai_device =
  buffer_idr :: "ai_buffer idr"
  model_idr :: "ai_model idr"
  fence_counter :: "32 word"
  caps :: ai_device_caps
  total_inferences :: "64 word"
  total_bytes_processed :: "64 word"

record ai_alloc_request =
  req_size :: "64 word"
  req_flags :: "32 word"
  handle :: "64 word"
  req_dma_addr :: "64 word"

record ai_free_request =
  free_handle :: "64 word"

record ai_load_model_request =
  model_data :: "64 word"
  model_size :: "64 word"
  load_flags :: "32 word"
  loaded_handle :: "64 word"

record ai_inference_request =
  model_handle :: "64 word"
  input_handle :: "64 word"
  output_handle :: "64 word"
  input_size :: "32 word"
  output_size :: "32 word"
  infer_flags :: "32 word"
  priority :: "32 word"
  user_data :: "64 word"
  fence :: "64 word"

text \<open>
  What the kernel answers during one ioctl: the module parameter \<open>simulate\<close>, whether
  \<open>kzalloc\<close> succeeds, the address \<open>vzalloc\<close>, \<open>vmalloc\<close> or \<open>dma_alloc_coherent\<close>
  returns (\<open>0\<close> is \<open>NULL\<close>), the bus address \<open>dma_alloc_coherent\<close> stores, whether the
  copy of the model bytes from user space succeeds, and whether \<open>idr_alloc\<close> gets its memory.
\<close>

record kenv =
  simulate :: bool
  kzalloc_ok :: bool
  vaddr :: "64 word"
  dma_handle :: "64 word"
  blob_ok :: bool
  idr_ok :: bool

definition DRIVER_VERSION :: "32 word" where
  "DRIVER_VERSION = 0x010000"

definition ai_accel_init :: "bool \<Rightarrow> 32 word \<Rightarrow> ai_device" where
  "ai_accel_init sim engines =
     \<lparr> buffer_idr = idr_init, model_idr = idr_init, fence_counter = 0,
       caps = \<lparr> version = DRIVER_VERSION, hw_version = (if sim then 0 else 0x100),
                num_engines = engines, max_batch_size = 32,
                memory_size = push_bit 30 1, max_alloc_size = push_bit 20 256,
                features = 1 OR 2 OR 4 OR 32 \<rparr>,
       total_inferences = 0, total_bytes_processed = 0 \<rparr>"

definition ai_ioctl_alloc ::
  "kenv \<Rightarrow> ai_device \<Rightarrow> ai_alloc_request user_ptr \<Rightarrow> (errno + ai_alloc_request) \<times> ai_device" where
  "ai_ioctl_alloc env dev arg =
     (case copy_from_user arg of
        None \<Rightarrow> (Inl EFAULT, dev)
      | Some req \<Rightarrow>
          if req_size req = 0 \<or> max_alloc_size (caps dev) < req_size req then (Inl EINVAL, dev)
          else if kzalloc_ok env then
            (let buf = \<lparr> cpu_addr = vaddr env,
                         dma_addr = (if simulate env then vaddr env else dma_handle env),
                         buf_size = req_size req, buf_flags = req_flags req \<rparr>
             in if cpu_addr buf = 0 then (Inl ENOMEM, dev)
                else case idr_alloc (buffer_idr dev) buf 1 0 (idr_ok env) of
                  Inl e \<Rightarrow> (Inl e, dev)
                | Inr (h, idr') \<Rightarrow>
                    (let req' = req\<lparr> handle := of_nat h, req_dma_addr := dma_addr buf \<rparr>
                     in if copy_to_user arg req'
                        then (Inr req', dev\<lparr> buffer_idr := idr' \<rparr>)
                        else (Inl EFAULT, dev\<lparr> buffer_idr := idr_remove idr' (of_nat h) \<rparr>)))
          else (Inl ENOMEM, dev))"

definition ai_ioctl_free ::
  "kenv \<Rightarrow> ai_device \<Rightarrow> ai_free_request user_ptr \<Rightarrow> (errno + unit) \<times> ai_device" where
  "ai_ioctl_free env dev arg =
     (case copy_from_user arg of
        None \<Rightarrow> (Inl EFAULT, dev)
      | Some req \<Rightarrow>
          (case idr_find (buffer_idr dev) (free_handle req) of
             None \<Rightarrow> (Inl EINVAL, dev)
           | Some buf \<Rightarrow>
               (Inr (), dev\<lparr> buffer_idr := idr_remove (buffer_idr dev) (free_handle req) \<rparr>)))"

definition ai_ioctl_load_model ::
  "kenv \<Rightarrow> ai_device \<Rightarrow> ai_load_model_request user_ptr \<Rightarrow>
     (errno + ai_load_model_request) \<times> ai_device" where
  "ai_ioctl_load_model env dev arg =
     (case copy_from_user arg of
        None \<Rightarrow> (Inl EFAULT, dev)
      | Some req \<Rightarrow>
          if model_size req = 0 \<or> max_alloc_size (caps dev) < model_size req then (Inl EINVAL, dev)
          else if kzalloc_ok env then
            (let model = \<lparr> data = vaddr env, model_sz = model_size req, model_fl = load_flags req \<rparr>
             in if data model = 0 then (Inl ENOMEM, dev)
                else if blob_ok env then
                  (case idr_alloc (model_idr dev) model 1 0 (idr_ok env) of
                     Inl e \<Rightarrow> (Inl e, dev)
                   | Inr (h, idr') \<Rightarrow>
                       (let req' = req\<lparr> loaded_handle := of_nat h \<rparr>
                        in if copy_to_user arg req'
                           then (Inr req', dev\<lparr> model_idr := idr' \<rparr>)
                           else (Inl EFAULT, dev\<lparr> model_idr := idr_remove idr' (of_nat h) \<rparr>)))
                else (Inl EFAULT, dev))
          else (Inl ENOMEM, dev))"

text \<open>
  \<open>atomic_inc_return\<close> returns the incremented \<open>int\<close>; the assignment to the \<open>u64 fence\<close>
  sign-extends it. The byte statistic adds the 32-bit sum of the two sizes.
\<close>

definition ai_ioctl_submit ::
  "kenv \<Rightarrow> ai_device \<Rightarrow> ai_inference_request user_ptr \<Rightarrow>
     (errno + ai_inference_request) \<times> ai_device" where
  "ai_ioctl_submit env dev arg =
     (case copy_from_user arg of
        None \<Rightarrow> (Inl EFAULT, dev)
      | Some req \<Rightarrow>
          if idr_find (model_idr dev) (model_handle req) = None
             \<or> idr_find (buffer_idr dev) (input_handle req) = None
             \<or> idr_find (buffer_idr dev) (output_handle req) = None
          then (Inl EINVAL, dev)
          else
            (let c = fence_counter dev + 1;
                 dev' = dev\<lparr> fence_counter := c,
                             total_inferences := total_inferences dev + 1,
                             total_bytes_processed :=
                               total_bytes_processed dev + ucast (input_size req + output_size req) \<rparr>;
                 req' = req\<lparr> fence := scast c \<rparr>
             in if copy_to_user arg req' then (Inr req', dev') else (Inl EFAULT, dev')))"

text \<open>
  The \<open>switch\<close> of \<open>ai_ioctl\<close> over the four commands that reach a handler of the handle
  table, each with what the kernel answers during the call.
\<close>

datatype ioctl =
    AI_IOC_ALLOC kenv "ai_alloc_request user_ptr"
  | AI_IOC_FREE kenv "ai_free_request user_ptr"
  | AI_IOC_LOAD_MODEL kenv "ai_load_model_request user_ptr"
  | AI_IOC_SUBMIT kenv "ai_inference_request user_ptr"

datatype reply =
    Allocated ai_alloc_request
  | Freed
  | Loaded ai_load_model_request
  | Submitted ai_inference_request

fun ai_ioctl :: "ai_device \<Rightarrow> ioctl \<Rightarrow> (errno + reply) \<times> ai_device" where
  "ai_ioctl dev (AI_IOC_ALLOC env arg) =
     (case ai_ioctl_alloc env dev arg of
        (Inl e, dev') \<Rightarrow> (Inl e, dev') | (Inr r, dev') \<Rightarrow> (Inr (Allocated r), dev'))"
| "ai_ioctl dev (AI_IOC_FREE env arg) =
     (case ai_ioctl_free env dev arg of
        (Inl e, dev') \<Rightarrow> (Inl e, dev') | (Inr r, dev') \<Rightarrow> (Inr Freed, dev'))"
| "ai_ioctl dev (AI_IOC_LOAD_MODEL env arg) =
     (case ai_ioctl_load_model env dev arg of
        (Inl e, dev') \<Rightarrow> (Inl e, dev') | (Inr r, dev') \<Rightarrow> (Inr (Loaded r), dev'))"
| "ai_ioctl dev (AI_IOC_SUBMIT env arg) =
     (case ai_ioctl_submit env dev arg of
        (Inl e, dev') \<Rightarrow> (Inl e, dev') | (Inr r, dev') \<Rightarrow> (Inr (Submitted r), dev'))"

text \<open>
  A session is the device together with what its user has seen: the buffer handles that
  successful allocations returned and no successful free has given back yet (in order of
  issue), and the fences that successful submissions returned (in order of issue).
\<close>

record session =
  device :: ai_device
  live :: "64 word list"
  fences :: "64 word list"

fun freed_handle :: "ioctl \<Rightarrow> 64 word option" where
  "freed_handle (AI_IOC_FREE env arg) = map_option free_handle (copy_from_user arg)"
| "freed_handle _ = None"

definition observe :: "session \<Rightarrow> ioctl \<Rightarrow> session" where
  "observe s c =
     (case ai_ioctl (device s) c of
        (Inl e, dev') \<Rightarrow> s\<lparr> device := dev' \<rparr>
      | (Inr (Allocated r), dev') \<Rightarrow> s\<lparr> device := dev', live := live s @ [handle r] \<rparr>
      | (Inr Freed, dev') \<Rightarrow>
          (case freed_handle c of
             None \<Rightarrow> s\<lparr> device := dev' \<rparr>
           | Some h \<Rightarrow> s\<lparr> device := dev', live := remove1 h (live s) \<rparr>)
      | (Inr (Loaded r), dev') \<Rightarrow> s\<lparr> device := dev' \<rparr>
      | (Inr (Submitted r), dev') \<Rightarrow> s\<lparr> device := dev', fences := fences s @ [fence r] \<rparr>)"

definition opened :: "bool \<Rightarrow> 32 word \<Rightarrow> session" where
  "opened sim engines = \<lparr> device = ai_accel_init sim engines, live = [], fences = [] \<rparr>"

definition run :: "bool \<Rightarrow> 32 word \<Rightarrow> ioctl list \<Rightarrow> session" where
  "run sim engines cmds = foldl observe (opened sim engines) cmds"

section \<open>The DMA module: \<open>ai_dma.c\<close>\<close>

subsection \<open>Kernel memory and page pins\<close>

text \<open>
  What \<open>ai_dma_map_user_buffer\<close> acquires from the kernel: the descriptor (\<open>kzalloc\<close>), the
  page-pointer array and the scatter-gather table (\<open>kvmalloc_array\<close>), and the pins that
  \<open>pin_user_pages_fast\<close> takes on user pages. The kernel state records what is held.
\<close>

type_synonym page = nat

datatype kobj = Descriptor | PageArray | SgTable

record kmem =
  pinned :: "page multiset"
  held :: "kobj multiset"

definition kalloc :: "kobj \<Rightarrow> kmem \<Rightarrow> kmem" where
  "kalloc obj km = km\<lparr> held := held km + {#obj#} \<rparr>"

definition kfree :: "kobj \<Rightarrow> kmem \<Rightarrow> kmem" where
  "kfree obj km = km\<lparr> held := held km - {#obj#} \<rparr>"

definition kvfree :: "kobj \<Rightarrow> kmem \<Rightarrow> kmem" where
  "kvfree obj km = km\<lparr> held := held km - {#obj#} \<rparr>"

text \<open>\<open>kvmalloc_array(n, size, flags)\<close> returns \<open>NULL\<close> when \<open>n * size\<close> overflows \<open>size_t\<close>.\<close>

definition kvmalloc_array :: "64 word \<Rightarrow> nat \<Rightarrow> bool \<Rightarrow> bool" where
  "kvmalloc_array n elem ok = (if 2 ^ 64 \<le> unat n * elem then False else ok)"

definition pin_pages :: "page list \<Rightarrow> kmem \<Rightarrow> kmem" where
  "pin_pages ps km = km\<lparr> pinned := pinned km + mset ps \<rparr>"

definition unpin_user_pages :: "page list \<Rightarrow> nat \<Rightarrow> kmem \<Rightarrow> kmem" where
  "unpin_user_pages ps n km = km\<lparr> pinned := pinned km - mset (take n ps) \<rparr>"

subsection \<open>Mapping a user buffer\<close>

datatype dma_data_direction = DMA_BIDIRECTIONAL | DMA_TO_DEVICE | DMA_FROM_DEVICE | DMA_NONE

record scatterlist =
  sg_page :: page
  sg_offset :: "32 word"
  sg_length :: "32 word"

record ai_dma_buffer =
  b_cpu_addr :: "64 word"
  b_dma_addr :: "64 word"
  b_size :: "64 word"
  dir :: dma_data_direction
  sg :: "scatterlist list option"
  sg_count :: nat
  mapped :: bool

text \<open>\<open>PAGE_SIZE\<close> with 4 KiB pages; \<open>size_t\<close> and \<open>unsigned long\<close> are 64 bits wide.\<close>

definition PAGE_SIZE :: "64 word" where
  "PAGE_SIZE = 4096"

definition offset_in_page :: "64 word \<Rightarrow> 64 word" where
  "offset_in_page p = p AND (PAGE_SIZE - 1)"

definition DIV_ROUND_UP :: "64 word \<Rightarrow> 64 word \<Rightarrow> 64 word" where
  "DIV_ROUND_UP n d = (n + d - 1) div d"

text \<open>
  One pass of the fill loop. \<open>i\<close> is an \<open>int\<close>; in \<open>i * PAGE_SIZE - offset_in_page(user_addr)\<close> it
  is converted to \<open>unsigned long\<close> and the subtraction wraps. \<open>offset\<close> and \<open>len\<close> are
  \<open>unsigned int\<close>.
\<close>

definition sg_entry :: "64 word \<Rightarrow> 64 word \<Rightarrow> page list \<Rightarrow> int \<Rightarrow> scatterlist" where
  "sg_entry user_addr sz pages i =
     (let offset = (if i = 0 then ucast (offset_in_page user_addr) else 0) :: 32 word;
          len = ucast (min (PAGE_SIZE - ucast offset)
                           (sz - (word_of_int i * PAGE_SIZE - offset_in_page user_addr))) :: 32 word
      in \<lparr> sg_page = pages ! nat i, sg_offset = offset, sg_length = len \<rparr>)"

function sg_fill :: "64 word \<Rightarrow> 64 word \<Rightarrow> page list \<Rightarrow> int \<Rightarrow> int \<Rightarrow> scatterlist list" where
  "sg_fill user_addr sz pages i nr_pages =
     (if i < nr_pages
      then sg_entry user_addr sz pages i # sg_fill user_addr sz pages (i + 1) nr_pages
      else [])"
  by pat_completeness auto
termination
  by (relation "measure (\<lambda>(user_addr, sz, pages, i, nr_pages). nat (nr_pages - i))") auto

text \<open>The local \<open>int nr_pages\<close>: the page count, truncated to 32 bits.\<close>

definition nr_pages_of :: "64 word \<Rightarrow> 64 word \<Rightarrow> 32 word" where
  "nr_pages_of user_addr sz =
     ucast (DIV_ROUND_UP (sz + offset_in_page user_addr) PAGE_SIZE)"

text \<open>
  What the kernel answers while a user buffer is mapped: whether each allocation succeeds,
  what \<open>pin_user_pages_fast\<close> returns (a negated errno, or the pages it pinned, whose number
  is its return value), and the number of entries \<open>dma_map_sg\<close> mapped.
\<close>

record map_env =
  buf_ok :: bool
  pages_ok :: bool
  pin_ret :: "errno + page list"
  sg_ok :: bool
  mapped_ents :: nat

definition ai_dma_map_user_buffer ::
  "map_env \<Rightarrow> kmem \<Rightarrow> 64 word \<Rightarrow> 64 word \<Rightarrow> dma_data_direction \<Rightarrow>
     (errno + ai_dma_buffer) \<times> kmem" where
  "ai_dma_map_user_buffer env km user_addr sz d =
     (if buf_ok env then
        (let km1 = kalloc Descriptor km;
             nr_pages = nr_pages_of user_addr sz
         in if kvmalloc_array (scast nr_pages) 8 (pages_ok env) then
              (let km2 = kalloc PageArray km1
               in case pin_ret env of
                    Inl e \<Rightarrow> (Inl e, kfree Descriptor (kvfree PageArray km2))
                  | Inr pages \<Rightarrow>
                      (let km3 = pin_pages pages km2
                       in if int (length pages) = sint nr_pages then
                            (if kvmalloc_array (scast nr_pages) 32 (sg_ok env) then
                               (let km4 = kalloc SgTable km3;
                                    sgl = sg_fill user_addr sz pages 0 (sint nr_pages)
                                in if mapped_ents env = 0
                                   then (Inl EIO,
                                         kfree Descriptor (kvfree PageArray (kvfree SgTable
                                           (unpin_user_pages pages (nat (sint nr_pages)) km4))))
                                   else (Inr \<lparr> b_cpu_addr = 0, b_dma_addr = 0, b_size = sz, dir = d,
                                               sg = Some sgl, sg_count = mapped_ents env,
                                               mapped = True \<rparr>,
                                         kvfree PageArray km4))
                             else (Inl ENOMEM,
                                   kfree Descriptor (kvfree PageArray
                                     (unpin_user_pages pages (nat (sint nr_pages)) km3))))
                          else (Inl EFAULT,
                                kfree Descriptor (kvfree PageArray
                                  (unpin_user_pages pages (length pages) km3)))))
            else (Inl ENOMEM, kfree Descriptor km1))
      else (Inl ENOMEM, km))"

subsection \<open>The channel pool and transfers\<close>

type_synonym dma_chan = nat

definition AI_DMA_CHANNELS :: nat where
  "AI_DMA_CHANNELS = 4"

text \<open>
  The module's static state: the array \<open>dma_channels\<close> (indexed \<open>0..3\<close>, \<open>None\<close> is \<open>NULL\<close>) and
  \<open>channel_bitmap\<close>; with it the descriptors that were issued to the DMA engine and have
  neither completed nor been terminated, each with its channel and cookie.
\<close>

record dma_state =
  dma_channels :: "nat \<Rightarrow> dma_chan option"
  channel_bitmap :: "64 word"
  in_flight :: "(dma_chan \<times> nat) list"

definition dma_loaded :: dma_state where
  "dma_loaded = \<lparr> dma_channels = (\<lambda>i. None), channel_bitmap = 0, in_flight = [] \<rparr>"

function request_channels :: "(nat \<Rightarrow> dma_chan option) \<Rightarrow> nat \<Rightarrow> dma_state \<Rightarrow> dma_state" where
  "request_channels request i st =
     (if i < AI_DMA_CHANNELS then
        (let st1 = st\<lparr> dma_channels := (dma_channels st)(i := request i) \<rparr>
         in case request i of
              None \<Rightarrow> request_channels request (i + 1) st1
            | Some c \<Rightarrow>
                request_channels request (i + 1)
                  (st1\<lparr> channel_bitmap := set_bit i (channel_bitmap st1) \<rparr>))
      else st)"
  by pat_completeness auto
termination
  by (relation "measure (\<lambda>(request, i, st). AI_DMA_CHANNELS - i)") auto

definition ai_dma_init :: "(nat \<Rightarrow> dma_chan option) \<Rightarrow> dma_state \<Rightarrow> (errno + unit) \<times> dma_state" where
  "ai_dma_init request st =
     (let st' = request_channels request 0 (st\<lparr> channel_bitmap := 0 \<rparr>)
      in if channel_bitmap st' = 0 then (Inl ENODEV, st') else (Inr (), st'))"

text \<open>The search loop that opens both transfer functions.\<close>

function find_channel :: "dma_state \<Rightarrow> nat \<Rightarrow> dma_chan option" where
  "find_channel st i =
     (if i < AI_DMA_CHANNELS then
        (if bit (channel_bitmap st) i then
           (case dma_channels st i of
              Some c \<Rightarrow> Some c
            | None \<Rightarrow> find_channel st (i + 1))
         else find_channel st (i + 1))
      else None)"
  by pat_completeness auto
termination
  by (relation "measure (\<lambda>(st, i). AI_DMA_CHANNELS - i)") auto

definition dma_async_issue_pending :: "dma_chan \<Rightarrow> nat \<Rightarrow> dma_state \<Rightarrow> dma_state" where
  "dma_async_issue_pending chan cookie st = st\<lparr> in_flight := in_flight st @ [(chan, cookie)] \<rparr>"

definition dmaengine_terminate_sync :: "dma_chan \<Rightarrow> dma_state \<Rightarrow> dma_state" where
  "dmaengine_terminate_sync chan st =
     st\<lparr> in_flight := filter (\<lambda>d. fst d \<noteq> chan) (in_flight st) \<rparr>"

definition completed :: "dma_chan \<Rightarrow> nat \<Rightarrow> dma_state \<Rightarrow> dma_state" where
  "completed chan cookie st = st\<lparr> in_flight := remove1 (chan, cookie) (in_flight st) \<rparr>"

text \<open>
  What the DMA engine answers during one transfer: whether \<open>dmaengine_prep_dma_memcpy\<close>
  returns a descriptor, the cookie of \<open>dmaengine_submit\<close> (or its error), and the return of
  \<open>wait_for_completion_timeout\<close>, an \<open>unsigned long\<close>: \<open>0\<close> when the timeout elapsed
  first, otherwise the jiffies that were left when the completion callback ran.
\<close>

record xfer_env =
  prep_ok :: bool
  submit_ret :: "errno + nat"
  wait_ret :: "64 word"

text \<open>
  \<open>ai_dma_transfer_sync\<close> stores the result of the wait in its local \<open>int ret\<close>, which keeps
  the low 32 bits, and tests \<open>ret == 0\<close>.
\<close>

definition ai_dma_transfer_sync ::
  "xfer_env \<Rightarrow> dma_state \<Rightarrow> 64 word \<Rightarrow> 64 word \<Rightarrow> 64 word \<Rightarrow> 32 word \<Rightarrow>
     (errno + unit) \<times> dma_state" where
  "ai_dma_transfer_sync env st dst_addr src_addr sz timeout_ms =
     (case find_channel st 0 of
        None \<Rightarrow> (Inl ENODEV, st)
      | Some chan \<Rightarrow>
          if prep_ok env then
            (case submit_ret env of
               Inl e \<Rightarrow> (Inl e, st)
             | Inr cookie \<Rightarrow>
                 (let st1 = dma_async_issue_pending chan cookie st;
                      ret = ucast (wait_ret env) :: 32 word
                  in if ret = 0
                     then (Inl ETIMEDOUT, dmaengine_terminate_sync chan st1)
                     else (Inr (), completed chan cookie st1)))
          else (Inl ENOMEM, st))"

definition ai_dma_transfer_async ::
  "xfer_env \<Rightarrow> dma_state \<Rightarrow> 64 word \<Rightarrow> 64 word \<Rightarrow> 64 word \<Rightarrow> (errno + nat) \<times> dma_state" where
  "ai_dma_transfer_async env st dst_addr src_addr sz =
     (case find_channel st 0 of
        None \<Rightarrow> (Inl ENODEV, st)
      | Some chan \<Rightarrow>
          if prep_ok env then
            (case submit_ret env of
               Inl e \<Rightarrow> (Inl e, st)
             | Inr cookie \<Rightarrow> (Inr cookie, dma_async_issue_pending chan cookie st))
          else (Inl ENOMEM, st))"

text \<open>The channels a transfer can select: bit set in the bitmap and pointer not \<open>NULL\<close>.\<close>

definition free_channels :: "dma_state \<Rightarrow> nat list" where
  "free_channels st =
     filter (\<lambda>i. bit (channel_bitmap st) i \<and> dma_channels st i \<noteq> None) [0 ..< AI_DMA_CHANNELS]"

definition transfers_on :: "dma_chan \<Rightarrow> dma_state \<Rightarrow> (dma_chan \<times> nat) list" where
  "transfers_on chan st = filter (\<lambda>d. fst d = chan) (in_flight st)"

section \<open>The second ioctl module: \<open>ai_ioctl.c\<close>\<close>

text \<open>
  Modelled from the spec: the header that declares \<open>struct ai_accel_device\<close>,
  \<open>struct ai_accel_mem_alloc\<close>, \<open>struct ai_accel_mem_free\<close> and \<open>struct ai_accel_wait\<close> is
  not among the sources. The records below have the fields the handlers read and write
  (64-bit sizes and counters), the handle that free names and the fence and timeout that
  wait names.
\<close>

record ai_accel_device =
  mem_size :: "64 word"
  mem_used :: "64 word"

record ai_ioctl_context =
  adev :: ai_accel_device
  ctx_total_inferences :: "64 word"
  ctx_total_bytes_transferred :: "64 word"

record ai_accel_mem_alloc =
  alloc_size :: "64 word"
  alloc_handle :: "64 word"

record ai_accel_mem_free =
  mfree_handle :: "64 word"
  mfree_size :: "64 word"

record ai_accel_wait =
  wait_fence :: "64 word"
  wait_timeout_ns :: "64 word"
  wait_status :: "32 word"
  wait_result :: "32 word"

definition AI_STATUS_SUCCESS :: "32 word" where
  "AI_STATUS_SUCCESS = 0"

definition PAGE_ALIGN :: "64 word \<Rightarrow> 64 word" where
  "PAGE_ALIGN n = (n + (PAGE_SIZE - 1)) AND NOT (PAGE_SIZE - 1)"

text \<open>\<open>coherent\<close> is the bus address \<open>dma_alloc_coherent\<close> returns, \<open>None\<close> when it fails.\<close>

definition ai_ioctl_alloc_memory ::
  "64 word option \<Rightarrow> ai_ioctl_context \<Rightarrow> ai_accel_mem_alloc user_ptr \<Rightarrow>
     (errno + ai_accel_mem_alloc) \<times> ai_ioctl_context" where
  "ai_ioctl_alloc_memory coherent ctx arg =
     (case copy_from_user arg of
        None \<Rightarrow> (Inl EFAULT, ctx)
      | Some alloc \<Rightarrow>
          if alloc_size alloc = 0 \<or> 64 * 1024 * 1024 < alloc_size alloc then (Inl EINVAL, ctx)
          else
            (let sz = PAGE_ALIGN (alloc_size alloc)
             in if mem_size (adev ctx) < mem_used (adev ctx) + sz then (Inl ENOMEM, ctx)
                else case coherent of
                  None \<Rightarrow> (Inl ENOMEM, ctx)
                | Some bus \<Rightarrow>
                    (let alloc' = alloc\<lparr> alloc_size := sz, alloc_handle := bus \<rparr>;
                         ctx' = ctx\<lparr> adev := (adev ctx)\<lparr> mem_used := mem_used (adev ctx) + sz \<rparr> \<rparr>
                     in if copy_to_user arg alloc' then (Inr alloc', ctx')
                        else (Inl EFAULT,
                              ctx'\<lparr> adev := (adev ctx')\<lparr> mem_used := mem_used (adev ctx') - sz \<rparr> \<rparr>))))"

definition ai_ioctl_free_memory ::
  "ai_ioctl_context \<Rightarrow> ai_accel_mem_free user_ptr \<Rightarrow> (errno + unit) \<times> ai_ioctl_context" where
  "ai_ioctl_free_memory ctx arg =
     (case copy_from_user arg of
        None \<Rightarrow> (Inl EFAULT, ctx)
      | Some mfree \<Rightarrow>
          if mfree_size mfree \<le> mem_used (adev ctx)
          then (Inr (), ctx\<lparr> adev := (adev ctx)\<lparr> mem_used := mem_used (adev ctx) - mfree_size mfree \<rparr> \<rparr>)
          else (Inr (), ctx))"

definition ai_ioctl_wait_completion ::
  "ai_ioctl_context \<Rightarrow> ai_accel_wait user_ptr \<Rightarrow> (errno + ai_accel_wait) \<times> ai_ioctl_context" where
  "ai_ioctl_wait_completion ctx arg =
     (case copy_from_user arg of
        None \<Rightarrow> (Inl EFAULT, ctx)
      | Some wait \<Rightarrow>
          (let wait' = wait\<lparr> wait_status := AI_STATUS_SUCCESS, wait_result := 0 \<rparr>
           in if copy_to_user arg wait' then (Inr wait', ctx) else (Inl EFAULT, ctx)))"

section \<open>Invariant and scenarios\<close>

text \<open>
  The handles the user holds are exactly the IDs of the buffer table, each held once.
\<close>

definition tracked :: "session \<Rightarrow> bool" where
  "tracked s \<longleftrightarrow>
     distinct (live s) \<and> unat ` set (live s) = fst ` set (buffer_idr (device s))"

text \<open>A kernel in which every allocation and copy succeeds, and well-formed requests.\<close>

definition env_ok :: kenv where
  "env_ok = \<lparr> simulate = True, kzalloc_ok = True, vaddr = 0x1000, dma_handle = 0,
              blob_ok = True, idr_ok = True \<rparr>"

definition buf_ok4k :: ai_buffer where
  "buf_ok4k = \<lparr> cpu_addr = 0x1000, dma_addr = 0x1000, buf_size = 4096, buf_flags = 0 \<rparr>"

definition with_buffers :: "nat list \<Rightarrow> ai_device" where
  "with_buffers ids = (ai_accel_init True 4)\<lparr> buffer_idr := map (\<lambda>i. (i, buf_ok4k)) ids \<rparr>"

definition alloc_reply :: "64 word \<Rightarrow> ai_alloc_request" where
  "alloc_reply h = \<lparr> req_size = 4096, req_flags = 0, handle = h, req_dma_addr = 0x1000 \<rparr>"

definition alloc_arg :: "ai_alloc_request user_ptr" where
  "alloc_arg = UserPtr (Some \<lparr> req_size = 4096, req_flags = 0, handle = 0, req_dma_addr = 0 \<rparr>) True"

definition free_arg :: "64 word \<Rightarrow> ai_free_request user_ptr" where
  "free_arg h = UserPtr (Some \<lparr> free_handle = h \<rparr>) True"

definition load_arg :: "ai_load_model_request user_ptr" where
  "load_arg = UserPtr (Some \<lparr> model_data = 0x2000, model_size = 16, load_flags = 0,
                               loaded_handle = 0 \<rparr>) True"

definition submit_req :: "64 word \<Rightarrow> 64 word \<Rightarrow> 64 word \<Rightarrow> ai_inference_request" where
  "submit_req m i out =
     \<lparr> model_handle = m, input_handle = i, output_handle = out, input_size = 8, output_size = 8,
       infer_flags = 0, priority = 0, user_data = 0, fence = 0 \<rparr>"

definition submit_arg :: "64 word \<Rightarrow> 64 word \<Rightarrow> 64 word \<Rightarrow> ai_inference_request user_ptr" where
  "submit_arg m i out = UserPtr (Some (submit_req m i out)) True"

text \<open>The bytes a scatter-gather table covers.\<close>

definition sg_total :: "scatterlist list \<Rightarrow> nat" where
  "sg_total sgl = sum_list (map (\<lambda>e. unat (sg_length e)) sgl)"

text \<open>A kernel that grants every request of a mapping and pins the given pages.\<close>

definition map_ok :: "page list \<Rightarrow> nat \<Rightarrow> map_env" where
  "map_ok ps n = \<lparr> buf_ok = True, pages_ok = True, pin_ret = Inr ps, sg_ok = True,
                    mapped_ents = n \<rparr>"

definition kmem_idle :: kmem where
  "kmem_idle = \<lparr> pinned = {#}, held = {#} \<rparr>"

text \<open>
  The pool after \<open>ai_dma_init\<close> obtained channels 10, 11, 12 and 13, and an engine that
  accepts a descriptor under the given cookie and (for \<open>left = 0\<close>) lets the wait time out.
\<close>

definition four_channels :: dma_state where
  "four_channels = snd (ai_dma_init (\<lambda>i. Some (10 + i)) dma_loaded)"

definition engine :: "nat \<Rightarrow> 64 word \<Rightarrow> xfer_env" where
  "engine cookie left = \<lparr> prep_ok = True, submit_ret = Inr cookie, wait_ret = left \<rparr>"

text \<open>Asynchronous transfers issued one after the other, none completing in between.\<close>

fun issue :: "dma_state \<Rightarrow> nat list \<Rightarrow> (errno + nat) list \<times> dma_state" where
  "issue st [] = ([], st)"
| "issue st (c # cs) =
     (case ai_dma_transfer_async (engine c 1) st 0 0 16 of
        (r, st1) \<Rightarrow> (case issue st1 cs of (rs, st2) \<Rightarrow> (r # rs, st2)))"

text \<open>The second resource manager with 1 GiB of device memory, and its requests.\<close>

definition ctx_used :: "64 word \<Rightarrow> ai_ioctl_context" where
  "ctx_used n = \<lparr> adev = \<lparr> mem_size = 0x40000000, mem_used = n \<rparr>,
                  ctx_total_inferences = 0, ctx_total_bytes_transferred = 0 \<rparr>"

definition mem_alloc_arg :: "ai_accel_mem_alloc user_ptr" where
  "mem_alloc_arg = UserPtr (Some \<lparr> alloc_size = 4096, alloc_handle = 0 \<rparr>) True"

definition mem_free_arg :: "64 word \<Rightarrow> 64 word \<Rightarrow> ai_accel_mem_free user_ptr" where
  "mem_free_arg h n = UserPtr (Some \<lparr> mfree_handle = h, mfree_size = n \<rparr>) True"

declare sg_fill.simps [simp del]

declare request_channels.simps [simp del]

declare find_channel.simps [simp del]

section \<open>Properties of the ID allocator\<close>

lemma find_Some_holds: "find P xs = Some x \<Longrightarrow> x \<in> set xs \<and> P x"
  by (induction xs) (auto split: if_splits)

lemma idr_get_free_ge: "idr_get_free idr start = Some i \<Longrightarrow> start \<le> i"
  unfolding idr_get_free_def by (drule find_Some_holds) (simp del: upt_Suc)

lemma idr_get_free_fresh: "idr_get_free idr start = Some i \<Longrightarrow> i \<notin> fst ` set idr"
  unfolding idr_get_free_def by (drule find_Some_holds) simp

lemma idr_alloc_Inr:
  "idr_alloc idr ptr start end ok = Inr (h, idr') \<Longrightarrow>
     start \<le> h \<and> h \<notin> fst ` set idr \<and> idr' = (h, ptr) # idr \<and> (end \<le> 0 \<longrightarrow> h \<le> INT_MAX)"
  by (auto simp: idr_alloc_def Let_def split: option.splits if_splits
      dest: idr_get_free_ge idr_get_free_fresh)

lemma unat_handle: "h \<le> INT_MAX \<Longrightarrow> unat (word_of_nat h :: 64 word) = h"
  by (simp add: unat_of_nat INT_MAX_def)

section \<open>Handles are never zero\<close>

lemma ai_ioctl_alloc_Inr:
  "ai_ioctl_alloc env dev arg = (Inr r, dev') \<Longrightarrow>
     \<exists>h buf. handle r = word_of_nat h \<and> 1 \<le> h \<and> h \<le> INT_MAX
       \<and> h \<notin> fst ` set (buffer_idr dev)
       \<and> dev' = dev\<lparr> buffer_idr := (h, buf) # buffer_idr dev \<rparr>"
  by (auto simp: ai_ioctl_alloc_def Let_def
      split: option.splits if_splits sum.splits prod.splits dest!: idr_alloc_Inr)

lemma ai_ioctl_load_model_Inr:
  "ai_ioctl_load_model env dev arg = (Inr r, dev') \<Longrightarrow>
     \<exists>h m. loaded_handle r = word_of_nat h \<and> 1 \<le> h \<and> h \<le> INT_MAX
       \<and> h \<notin> fst ` set (model_idr dev)
       \<and> dev' = dev\<lparr> model_idr := (h, m) # model_idr dev \<rparr>"
  by (auto simp: ai_ioctl_load_model_def Let_def
      split: option.splits if_splits sum.splits prod.splits dest!: idr_alloc_Inr)

text \<open>
  C10: every handle that a successful buffer allocation or model load returns is a strictly
  positive integer (between 1 and \<open>INT_MAX\<close>); 0 is never issued.
\<close>

theorem handles_strictly_positive:
  "(ai_ioctl_alloc env dev arg = (Inr r, dev') \<longrightarrow>
      handle r \<noteq> 0 \<and> 1 \<le> unat (handle r) \<and> unat (handle r) \<le> INT_MAX)
   \<and> (ai_ioctl_load_model env2 dev2 arg2 = (Inr r2, dev2') \<longrightarrow>
      loaded_handle r2 \<noteq> 0 \<and> 1 \<le> unat (loaded_handle r2) \<and> unat (loaded_handle r2) \<le> INT_MAX)"
proof (intro conjI impI)
  assume a: "ai_ioctl_alloc env dev arg = (Inr r, dev')"
  then obtain h where h: "handle r = word_of_nat h" "1 \<le> h" "h \<le> INT_MAX"
    by (blast dest: ai_ioctl_alloc_Inr)
  then have u: "unat (handle r) = h" by (simp add: unat_handle)
  from u h show "1 \<le> unat (handle r)" "unat (handle r) \<le> INT_MAX" by simp_all
  from u h show "handle r \<noteq> 0" by auto
next
  assume a: "ai_ioctl_load_model env2 dev2 arg2 = (Inr r2, dev2')"
  then obtain h where h: "loaded_handle r2 = word_of_nat h" "1 \<le> h" "h \<le> INT_MAX"
    by (blast dest: ai_ioctl_load_model_Inr)
  then have u: "unat (loaded_handle r2) = h" by (simp add: unat_handle)
  from u h show "1 \<le> unat (loaded_handle r2)" "unat (loaded_handle r2) \<le> INT_MAX" by simp_all
  from u h show "loaded_handle r2 \<noteq> 0" by auto
qed

lemma idr_get_free_empty: "idr_get_free [] (Suc 0) = Some (Suc 0)"
  by (simp add: idr_get_free_def)

lemma alloc_first:
  "ai_ioctl_alloc env_ok (ai_accel_init True 4) alloc_arg =
     (Inr \<lparr> req_size = 4096, req_flags = 0, handle = 1, req_dma_addr = 0x1000 \<rparr>,
      (ai_accel_init True 4)\<lparr> buffer_idr :=
         [(1, \<lparr> cpu_addr = 0x1000, dma_addr = 0x1000, buf_size = 4096, buf_flags = 0 \<rparr>)] \<rparr>)"
  by (simp add: ai_ioctl_alloc_def env_ok_def alloc_arg_def ai_accel_init_def idr_init_def
      copy_from_user_def copy_to_user_def idr_alloc_def idr_get_free_empty INT_MAX_def)

lemma load_first:
  "ai_ioctl_load_model env_ok (ai_accel_init True 4) load_arg =
     (Inr \<lparr> model_data = 0x2000, model_size = 16, load_flags = 0, loaded_handle = 1 \<rparr>,
      (ai_accel_init True 4)\<lparr> model_idr :=
         [(1, \<lparr> data = 0x1000, model_sz = 16, model_fl = 0 \<rparr>)] \<rparr>)"
  by (simp add: ai_ioctl_load_model_def env_ok_def load_arg_def ai_accel_init_def idr_init_def
      copy_from_user_def copy_to_user_def idr_alloc_def idr_get_free_empty INT_MAX_def)

theorem handles_strictly_positive_witness:
  "ai_ioctl_alloc env_ok (ai_accel_init True 4) alloc_arg =
     (Inr \<lparr> req_size = 4096, req_flags = 0, handle = 1, req_dma_addr = 0x1000 \<rparr>,
      (ai_accel_init True 4)\<lparr> buffer_idr :=
         [(1, \<lparr> cpu_addr = 0x1000, dma_addr = 0x1000, buf_size = 4096, buf_flags = 0 \<rparr>)] \<rparr>)
   \<and> ai_ioctl_load_model env_ok (ai_accel_init True 4) load_arg =
     (Inr \<lparr> model_data = 0x2000, model_size = 16, load_flags = 0, loaded_handle = 1 \<rparr>,
      (ai_accel_init True 4)\<lparr> model_idr :=
         [(1, \<lparr> data = 0x1000, model_sz = 16, model_fl = 0 \<rparr>)] \<rparr>)
   \<and> (1::64 word) \<noteq> 0 \<and> 1 \<le> unat (1::64 word) \<and> unat (1::64 word) \<le> INT_MAX"
  using handles_strictly_positive [of env_ok "ai_accel_init True 4" alloc_arg
      "\<lparr> req_size = 4096, req_flags = 0, handle = 1, req_dma_addr = 0x1000 \<rparr>"
      "(ai_accel_init True 4)\<lparr> buffer_idr :=
         [(1, \<lparr> cpu_addr = 0x1000, dma_addr = 0x1000, buf_size = 4096, buf_flags = 0 \<rparr>)] \<rparr>"
      env_ok "ai_accel_init True 4" load_arg
      "\<lparr> model_data = 0x2000, model_size = 16, load_flags = 0, loaded_handle = 1 \<rparr>"
      "(ai_accel_init True 4)\<lparr> model_idr :=
         [(1, \<lparr> data = 0x1000, model_sz = 16, model_fl = 0 \<rparr>)] \<rparr>"]
    alloc_first load_first
  by simp

section \<open>Submission validates its handles first\<close>

text \<open>
  C3: when a submission's request is read and any of its three handles (model, input
  buffer, output buffer) does not name a live resource, the call returns \<open>-EINVAL\<close> and the
  device, its fence counter included, is as before: no fence is consumed.
\<close>

theorem submit_invalid_handle:
  assumes "copy_from_user arg = Some req"
    and "idr_find (model_idr dev) (model_handle req) = None
         \<or> idr_find (buffer_idr dev) (input_handle req) = None
         \<or> idr_find (buffer_idr dev) (output_handle req) = None"
  shows "ai_ioctl_submit env dev arg = (Inl EINVAL, dev)
         \<and> fence_counter (snd (ai_ioctl_submit env dev arg)) = fence_counter dev"
  using assms by (auto simp: ai_ioctl_submit_def)

theorem submit_invalid_handle_witness:
  "copy_from_user (submit_arg 9 1 1) = Some (submit_req 9 1 1)
   \<and> idr_find (model_idr (ai_accel_init True 4)) (model_handle (submit_req 9 1 1)) = None
   \<and> ai_ioctl_submit env_ok (ai_accel_init True 4) (submit_arg 9 1 1)
       = (Inl EINVAL, ai_accel_init True 4)
   \<and> fence_counter (snd (ai_ioctl_submit env_ok (ai_accel_init True 4) (submit_arg 9 1 1))) = 0"
proof -
  have r: "copy_from_user (submit_arg 9 1 1) = Some (submit_req 9 1 1)"
    by (simp add: copy_from_user_def submit_arg_def)
  have m: "idr_find (model_idr (ai_accel_init True 4)) (model_handle (submit_req 9 1 1)) = None"
    by (simp add: idr_find_def ai_accel_init_def idr_init_def)
  have f: "fence_counter (ai_accel_init True 4) = 0"
    by (simp add: ai_accel_init_def)
  from submit_invalid_handle [OF r disjI1, OF m, of env_ok] r m f show ?thesis
    by simp
qed

section \<open>Live buffer handles are pairwise distinct\<close>

lemma idr_remove_keys: "fst ` set (idr_remove idr w) = fst ` set idr - {unat w}"
  by (auto simp: idr_remove_def)

lemma idr_find_keys: "idr_find idr w \<noteq> None \<longleftrightarrow> unat w \<in> fst ` set idr"
  by (simp add: idr_find_def map_of_eq_None_iff)

lemma idr_find_Some_keys: "(\<exists>y. idr_find idr w = Some y) \<longleftrightarrow> unat w \<in> fst ` set idr"
  using idr_find_keys [of idr w] by simp

lemma ai_ioctl_alloc_Inl_cases:
  "ai_ioctl_alloc env dev arg = (Inl e, dev') \<Longrightarrow>
     dev' = dev \<or> (\<exists>h buf. h \<le> INT_MAX \<and> h \<notin> fst ` set (buffer_idr dev)
        \<and> dev' = dev\<lparr> buffer_idr := idr_remove ((h, buf) # buffer_idr dev) (word_of_nat h) \<rparr>)"
  by (auto simp: ai_ioctl_alloc_def Let_def
      split: option.splits if_splits sum.splits prod.splits dest!: idr_alloc_Inr)

lemma ai_ioctl_alloc_Inl:
  assumes "ai_ioctl_alloc env dev arg = (Inl e, dev')"
  shows "fst ` set (buffer_idr dev') = fst ` set (buffer_idr dev)"
proof -
  from assms consider "dev' = dev"
    | h buf where "h \<le> INT_MAX" "h \<notin> fst ` set (buffer_idr dev)"
        "dev' = dev\<lparr> buffer_idr := idr_remove ((h, buf) # buffer_idr dev) (word_of_nat h) \<rparr>"
    by (blast dest: ai_ioctl_alloc_Inl_cases)
  then show ?thesis
  proof cases
    case 1
    then show ?thesis by simp
  next
    case 2
    then show ?thesis by (simp add: idr_remove_keys unat_handle)
  qed
qed

lemma ai_ioctl_free_Inr:
  "ai_ioctl_free env dev arg = (Inr u, dev') \<Longrightarrow>
     \<exists>req. copy_from_user arg = Some req \<and> unat (free_handle req) \<in> fst ` set (buffer_idr dev)
       \<and> dev' = dev\<lparr> buffer_idr := idr_remove (buffer_idr dev) (free_handle req) \<rparr>"
  by (auto simp: ai_ioctl_free_def idr_find_keys [symmetric] split: option.splits)

lemma ai_ioctl_free_Inl: "ai_ioctl_free env dev arg = (Inl e, dev') \<Longrightarrow> dev' = dev"
  by (auto simp: ai_ioctl_free_def split: option.splits)

lemma ai_ioctl_load_model_buffers:
  "ai_ioctl_load_model env dev arg = (r, dev') \<Longrightarrow> buffer_idr dev' = buffer_idr dev"
  by (auto simp: ai_ioctl_load_model_def Let_def
      split: option.splits if_splits sum.splits prod.splits)

lemma ai_ioctl_submit_buffers:
  "ai_ioctl_submit env dev arg = (r, dev') \<Longrightarrow> buffer_idr dev' = buffer_idr dev"
  by (auto simp: ai_ioctl_submit_def Let_def
      split: option.splits if_splits sum.splits prod.splits)

lemma tracked_member: "tracked s \<Longrightarrow> h \<in> set (live s) \<longleftrightarrow> unat h \<in> fst ` set (buffer_idr (device s))"
  unfolding tracked_def by (metis inj_image_mem_iff inj_unsigned)

lemma observe_alloc_tracked:
  assumes "tracked s" shows "tracked (observe s (AI_IOC_ALLOC env arg))"
proof (cases "ai_ioctl_alloc env (device s) arg")
  case (Pair r dev')
  show ?thesis
  proof (cases r)
    case (Inl e)
    with Pair assms ai_ioctl_alloc_Inl [of env "device s" arg e dev'] show ?thesis
      by (simp add: observe_def tracked_def)
  next
    case (Inr q)
    with Pair obtain h buf where h: "handle q = word_of_nat h" "h \<le> INT_MAX"
        "h \<notin> fst ` set (buffer_idr (device s))"
        "dev' = (device s)\<lparr> buffer_idr := (h, buf) # buffer_idr (device s) \<rparr>"
      by (blast dest: ai_ioctl_alloc_Inr)
    from h have u: "unat (handle q) = h" by (simp add: unat_handle)
    with h assms have "handle q \<notin> set (live s)" by (simp add: tracked_member)
    with Pair Inr assms h u show ?thesis
      by (simp add: observe_def tracked_def)
  qed
qed

lemma observe_free_tracked:
  assumes "tracked s" shows "tracked (observe s (AI_IOC_FREE env arg))"
proof (cases "ai_ioctl_free env (device s) arg")
  case (Pair r dev')
  show ?thesis
  proof (cases r)
    case (Inl e)
    with Pair assms ai_ioctl_free_Inl [of env "device s" arg e dev'] show ?thesis
      by (simp add: observe_def tracked_def)
  next
    case (Inr u)
    with Pair obtain req where q: "copy_from_user arg = Some req"
        "dev' = (device s)\<lparr> buffer_idr := idr_remove (buffer_idr (device s)) (free_handle req) \<rparr>"
      by (blast dest: ai_ioctl_free_Inr)
    from assms have d: "distinct (live s)"
      and k: "unat ` set (live s) = fst ` set (buffer_idr (device s))"
      by (simp_all add: tracked_def)
    have "unat ` (set (live s) - {free_handle req}) = unat ` set (live s) - {unat (free_handle req)}"
      by (auto simp: word_unat_eq_iff)
    with Pair Inr q d k show ?thesis
      by (simp add: observe_def tracked_def idr_remove_keys)
  qed
qed

lemma observe_tracked: "tracked s \<Longrightarrow> tracked (observe s c)"
proof (cases c)
  case (AI_IOC_ALLOC env arg)
  assume "tracked s" with AI_IOC_ALLOC show ?thesis by (simp add: observe_alloc_tracked)
next
  case (AI_IOC_FREE env arg)
  assume "tracked s" with AI_IOC_FREE show ?thesis by (simp add: observe_free_tracked)
next
  case (AI_IOC_LOAD_MODEL env arg)
  assume t: "tracked s"
  obtain r dev' where p: "ai_ioctl_load_model env (device s) arg = (r, dev')"
    by (cases "ai_ioctl_load_model env (device s) arg")
  then have "buffer_idr dev' = buffer_idr (device s)"
    by (rule ai_ioctl_load_model_buffers)
  with t p AI_IOC_LOAD_MODEL show ?thesis
    by (simp add: observe_def tracked_def split: sum.splits)
next
  case (AI_IOC_SUBMIT env arg)
  assume t: "tracked s"
  obtain r dev' where p: "ai_ioctl_submit env (device s) arg = (r, dev')"
    by (cases "ai_ioctl_submit env (device s) arg")
  then have "buffer_idr dev' = buffer_idr (device s)"
    by (rule ai_ioctl_submit_buffers)
  with t p AI_IOC_SUBMIT show ?thesis
    by (simp add: observe_def tracked_def split: sum.splits)
qed

lemma foldl_observe_tracked: "tracked s \<Longrightarrow> tracked (foldl observe s cmds)"
  by (induction cmds arbitrary: s) (simp_all add: observe_tracked)

lemma run_tracked: "tracked (run sim engines cmds)"
  unfolding run_def
  by (rule foldl_observe_tracked) (simp add: tracked_def opened_def ai_accel_init_def idr_init_def)

text \<open>
  C1: after every sequence of ioctls on one open device, the buffer handles the user holds
  (returned by a successful allocation, not yet given back by a successful free) are
  pairwise distinct, they are exactly the handles the buffer table resolves, and the handle
  that a further successful allocation returns is none of them.
\<close>

theorem live_buffer_handles_unique:
  "distinct (live (run sim engines cmds))
   \<and> set (live (run sim engines cmds))
       = {h. idr_find (buffer_idr (device (run sim engines cmds))) h \<noteq> None}
   \<and> (\<forall>env arg r dev'.
         ai_ioctl_alloc env (device (run sim engines cmds)) arg = (Inr r, dev')
         \<longrightarrow> handle r \<notin> set (live (run sim engines cmds)))"
proof (intro conjI allI impI)
  let ?s = "run sim engines cmds"
  have t: "tracked ?s" by (rule run_tracked)
  then show "distinct (live ?s)" by (simp add: tracked_def)
  from t show "set (live ?s) = {h. idr_find (buffer_idr (device ?s)) h \<noteq> None}"
    by (intro set_eqI) (simp add: tracked_member idr_find_Some_keys)
  fix env arg r dev'
  assume "ai_ioctl_alloc env (device ?s) arg = (Inr r, dev')"
  then obtain h where h: "handle r = word_of_nat h" "h \<le> INT_MAX"
      "h \<notin> fst ` set (buffer_idr (device ?s))"
    by (blast dest: ai_ioctl_alloc_Inr)
  then have "unat (handle r) = h" by (simp add: unat_handle)
  with h t show "handle r \<notin> set (live ?s)" by (simp add: tracked_member)
qed

lemma free_slot_1: "idr_get_free [(Suc 0, b)] (Suc 0) = Some 2"
  by (simp add: idr_get_free_def)

lemma free_slot_2: "idr_get_free [(2, b)] (Suc 0) = Some (Suc 0)"
  by (simp add: idr_get_free_def)

lemma alloc_on_empty:
  "ai_ioctl_alloc env_ok (with_buffers []) alloc_arg = (Inr (alloc_reply 1), with_buffers [Suc 0])"
  by (simp add: ai_ioctl_alloc_def env_ok_def alloc_arg_def with_buffers_def alloc_reply_def
      buf_ok4k_def ai_accel_init_def idr_init_def copy_from_user_def copy_to_user_def
      idr_alloc_def idr_get_free_empty INT_MAX_def)

lemma alloc_on_1:
  "ai_ioctl_alloc env_ok (with_buffers [Suc 0]) alloc_arg = (Inr (alloc_reply 2), with_buffers [2, Suc 0])"
  by (simp add: ai_ioctl_alloc_def env_ok_def alloc_arg_def with_buffers_def alloc_reply_def
      buf_ok4k_def ai_accel_init_def idr_init_def copy_from_user_def copy_to_user_def
      idr_alloc_def free_slot_1 INT_MAX_def Let_def)

lemma free_1_of_2_1:
  "ai_ioctl_free env_ok (with_buffers [2, Suc 0]) (free_arg 1) = (Inr (), with_buffers [2])"
  by (simp add: ai_ioctl_free_def free_arg_def with_buffers_def copy_from_user_def
      idr_find_def idr_remove_def)

lemma alloc_on_2:
  "ai_ioctl_alloc env_ok (with_buffers [2]) alloc_arg = (Inr (alloc_reply 1), with_buffers [Suc 0, 2])"
  by (simp add: ai_ioctl_alloc_def env_ok_def alloc_arg_def with_buffers_def alloc_reply_def
      buf_ok4k_def ai_accel_init_def idr_init_def copy_from_user_def copy_to_user_def
      idr_alloc_def free_slot_2 INT_MAX_def Let_def)

lemma copy_free_arg: "copy_from_user (free_arg h) = Some \<lparr> free_handle = h \<rparr>"
  by (simp add: free_arg_def copy_from_user_def)

lemma opened_with_buffers: "opened True 4 = \<lparr> device = with_buffers [], live = [], fences = [] \<rparr>"
  by (simp add: opened_def with_buffers_def ai_accel_init_def idr_init_def)

lemma run_alloc_alloc_free:
  "run True 4 [AI_IOC_ALLOC env_ok alloc_arg, AI_IOC_ALLOC env_ok alloc_arg,
               AI_IOC_FREE env_ok (free_arg 1)]
     = \<lparr> device = with_buffers [2], live = [2], fences = [] \<rparr>"
  by (simp add: run_def opened_with_buffers observe_def alloc_on_empty alloc_on_1 free_1_of_2_1
      alloc_reply_def copy_free_arg)

theorem live_buffer_handles_unique_witness:
  "live (run True 4 [AI_IOC_ALLOC env_ok alloc_arg, AI_IOC_ALLOC env_ok alloc_arg,
                     AI_IOC_FREE env_ok (free_arg 1)]) = [2]
   \<and> ai_ioctl_alloc env_ok
        (device (run True 4 [AI_IOC_ALLOC env_ok alloc_arg, AI_IOC_ALLOC env_ok alloc_arg,
                             AI_IOC_FREE env_ok (free_arg 1)])) alloc_arg
       = (Inr (alloc_reply 1), with_buffers [Suc 0, 2])
   \<and> handle (alloc_reply 1) = 1
   \<and> (1 :: 64 word) \<notin> set [2]
   \<and> distinct [2 :: 64 word]"
proof -
  let ?cmds = "[AI_IOC_ALLOC env_ok alloc_arg, AI_IOC_ALLOC env_ok alloc_arg,
                AI_IOC_FREE env_ok (free_arg 1)]"
  have e: "ai_ioctl_alloc env_ok (device (run True 4 ?cmds)) alloc_arg
             = (Inr (alloc_reply 1), with_buffers [Suc 0, 2])"
    by (simp add: run_alloc_alloc_free alloc_on_2)
  from live_buffer_handles_unique [of True 4 ?cmds]
  have d: "distinct (live (run True 4 ?cmds))"
    and n: "handle (alloc_reply 1) \<notin> set (live (run True 4 ?cmds))"
    using e by blast+
  from d n e show ?thesis
    by (simp add: run_alloc_alloc_free alloc_reply_def)
qed

section \<open>The fence counter wraps\<close>

lemma ai_ioctl_submit_ok:
  assumes "idr_find (model_idr dev) m \<noteq> None" and "idr_find (buffer_idr dev) i \<noteq> None"
    and "idr_find (buffer_idr dev) out \<noteq> None"
  shows "ai_ioctl_submit env dev (submit_arg m i out) =
           (Inr ((submit_req m i out)\<lparr> fence := scast (fence_counter dev + 1) \<rparr>),
            dev\<lparr> fence_counter := fence_counter dev + 1,
                 total_inferences := total_inferences dev + 1,
                 total_bytes_processed := total_bytes_processed dev + 16 \<rparr>)"
  using assms
  by (simp add: ai_ioctl_submit_def submit_arg_def submit_req_def copy_from_user_def
      copy_to_user_def Let_def)

lemma observe_submit_ok:
  assumes "idr_find (model_idr (device s)) m \<noteq> None"
    and "idr_find (buffer_idr (device s)) i \<noteq> None"
    and "idr_find (buffer_idr (device s)) out \<noteq> None"
  shows "observe s (AI_IOC_SUBMIT env (submit_arg m i out)) =
           s\<lparr> device := (device s)\<lparr> fence_counter := fence_counter (device s) + 1,
                 total_inferences := total_inferences (device s) + 1,
                 total_bytes_processed := total_bytes_processed (device s) + 16 \<rparr>,
              fences := fences s @ [scast (fence_counter (device s) + 1)] \<rparr>"
  by (simp add: observe_def ai_ioctl_submit_ok [OF assms])

lemma repeated_submit:
  assumes "idr_find (model_idr (device s)) m \<noteq> None"
    and "idr_find (buffer_idr (device s)) i \<noteq> None"
    and "idr_find (buffer_idr (device s)) out \<noteq> None"
  shows "model_idr (device (foldl observe s (replicate n (AI_IOC_SUBMIT env (submit_arg m i out)))))
           = model_idr (device s)
       \<and> buffer_idr (device (foldl observe s (replicate n (AI_IOC_SUBMIT env (submit_arg m i out)))))
           = buffer_idr (device s)
       \<and> fence_counter (device (foldl observe s (replicate n (AI_IOC_SUBMIT env (submit_arg m i out)))))
           = fence_counter (device s) + word_of_nat n
       \<and> fences (foldl observe s (replicate n (AI_IOC_SUBMIT env (submit_arg m i out))))
           = fences s @ map (\<lambda>k. scast (fence_counter (device s) + word_of_nat (Suc k))) [0..<n]"
proof (induction n)
  case 0
  show ?case by simp
next
  case (Suc n)
  let ?c = "AI_IOC_SUBMIT env (submit_arg m i out)"
  let ?t = "foldl observe s (replicate n ?c)"
  have "replicate (Suc n) ?c = replicate n ?c @ [?c]"
    by (simp add: replicate_append_same)
  then have step: "foldl observe s (replicate (Suc n) ?c) = observe ?t ?c"
    by (simp only: foldl_append foldl.simps)
  from Suc assms have v: "idr_find (model_idr (device ?t)) m \<noteq> None"
      "idr_find (buffer_idr (device ?t)) i \<noteq> None"
      "idr_find (buffer_idr (device ?t)) out \<noteq> None"
    by simp_all
  show ?case
    unfolding step observe_submit_ok [OF v]
    using Suc by (simp add: ac_simps)
qed

lemma load_on_1:
  "ai_ioctl_load_model env_ok (with_buffers [Suc 0]) load_arg =
     (Inr \<lparr> model_data = 0x2000, model_size = 16, load_flags = 0, loaded_handle = 1 \<rparr>,
      (with_buffers [Suc 0])\<lparr> model_idr := [(Suc 0, \<lparr> data = 0x1000, model_sz = 16, model_fl = 0 \<rparr>)] \<rparr>)"
  by (simp add: ai_ioctl_load_model_def env_ok_def load_arg_def with_buffers_def ai_accel_init_def
      idr_init_def copy_from_user_def copy_to_user_def idr_alloc_def idr_get_free_empty
      INT_MAX_def Let_def)

lemma run_alloc_load:
  "run True 4 [AI_IOC_ALLOC env_ok alloc_arg, AI_IOC_LOAD_MODEL env_ok load_arg]
     = \<lparr> device = (with_buffers [Suc 0])\<lparr> model_idr :=
                      [(Suc 0, \<lparr> data = 0x1000, model_sz = 16, model_fl = 0 \<rparr>)] \<rparr>,
         live = [1], fences = [] \<rparr>"
  by (simp add: run_def opened_with_buffers observe_def alloc_on_empty load_on_1 alloc_reply_def)

text \<open>
  C2 fails on the code: with one buffer and one model registered, 4294967297 successful
  submissions in a row receive the fences 1, ..., and the submission number 4294967296
  receives fence 0, smaller than the fence 18446744073709551615 of the one before it, and
  the next one receives fence 1 again, the fence of the first submission.
\<close>

theorem fence_wraps_after_2_32_submissions:
  "length (fences (run True 4 ([AI_IOC_ALLOC env_ok alloc_arg, AI_IOC_LOAD_MODEL env_ok load_arg]
      @ replicate 4294967297 (AI_IOC_SUBMIT env_ok (submit_arg 1 1 1))))) = 4294967297
   \<and> fences (run True 4 ([AI_IOC_ALLOC env_ok alloc_arg, AI_IOC_LOAD_MODEL env_ok load_arg]
      @ replicate 4294967297 (AI_IOC_SUBMIT env_ok (submit_arg 1 1 1)))) ! 0 = 1
   \<and> fences (run True 4 ([AI_IOC_ALLOC env_ok alloc_arg, AI_IOC_LOAD_MODEL env_ok load_arg]
      @ replicate 4294967297 (AI_IOC_SUBMIT env_ok (submit_arg 1 1 1)))) ! 4294967294
       = 18446744073709551615
   \<and> fences (run True 4 ([AI_IOC_ALLOC env_ok alloc_arg, AI_IOC_LOAD_MODEL env_ok load_arg]
      @ replicate 4294967297 (AI_IOC_SUBMIT env_ok (submit_arg 1 1 1)))) ! 4294967295 = 0
   \<and> fences (run True 4 ([AI_IOC_ALLOC env_ok alloc_arg, AI_IOC_LOAD_MODEL env_ok load_arg]
      @ replicate 4294967297 (AI_IOC_SUBMIT env_ok (submit_arg 1 1 1)))) ! 4294967296 = 1"
proof -
  let ?s = "run True 4 [AI_IOC_ALLOC env_ok alloc_arg, AI_IOC_LOAD_MODEL env_ok load_arg]"
  let ?c = "AI_IOC_SUBMIT env_ok (submit_arg 1 1 1)"
  have v: "idr_find (model_idr (device ?s)) 1 \<noteq> None" "idr_find (buffer_idr (device ?s)) 1 \<noteq> None"
    by (simp_all add: run_alloc_load with_buffers_def idr_find_def)
  have c0: "fence_counter (device ?s) = 0" and f0: "fences ?s = []"
    by (simp_all add: run_alloc_load with_buffers_def ai_accel_init_def)
  have split: "run True 4 ([AI_IOC_ALLOC env_ok alloc_arg, AI_IOC_LOAD_MODEL env_ok load_arg]
      @ replicate 4294967297 ?c) = foldl observe ?s (replicate 4294967297 ?c)"
    unfolding run_def by (rule foldl_append)
  have fs: "fences (foldl observe ?s (replicate 4294967297 ?c))
      = map (\<lambda>k. scast (word_of_nat (Suc k) :: 32 word)) [0..<4294967297]"
    using repeated_submit [OF v(1) v(2) v(2), of 4294967297 env_ok] by (simp add: c0 f0)
  show ?thesis
    unfolding split fs by simp
qed

section \<open>The scatter-gather table of a user buffer\<close>

lemma nr_pages_of_example: "nr_pages_of 0x1064 10 = 1"
  by (simp add: nr_pages_of_def DIV_ROUND_UP_def offset_in_page_def PAGE_SIZE_def)

lemma sg_fill_example:
  "sg_fill 0x1064 10 [7] 0 1 = [\<lparr> sg_page = 7, sg_offset = 100, sg_length = 110 \<rparr>]"
  by (simp add: sg_fill.simps sg_entry_def offset_in_page_def PAGE_SIZE_def)

text \<open>
  C5 fails on the code: for the region of 10 bytes at user address 0x1064 (page offset 100)
  the mapping succeeds with a single segment of offset 100 and length 110; the table covers
  110 bytes, not the 10 requested.
\<close>

theorem sg_first_segment_overshoots:
  "ai_dma_map_user_buffer (map_ok [7] 1) kmem_idle 0x1064 10 DMA_TO_DEVICE
     = (Inr \<lparr> b_cpu_addr = 0, b_dma_addr = 0, b_size = 10, dir = DMA_TO_DEVICE,
              sg = Some [\<lparr> sg_page = 7, sg_offset = 100, sg_length = 110 \<rparr>],
              sg_count = 1, mapped = True \<rparr>,
        \<lparr> pinned = {#7#}, held = {#Descriptor, SgTable#} \<rparr>)
   \<and> sg_total [\<lparr> sg_page = 7, sg_offset = 100, sg_length = 110 \<rparr>] = 110"
  by (simp add: ai_dma_map_user_buffer_def map_ok_def kmem_idle_def nr_pages_of_example
      sg_fill_example kvmalloc_array_def kalloc_def kfree_def kvfree_def pin_pages_def
      unpin_user_pages_def sg_total_def Let_def)

text \<open>
  The offsets are as intended: the first segment starts at the offset of the user address
  in its page, every later segment at offset 0.
\<close>

lemma sg_entry_offset:
  "sg_offset (sg_entry user_addr sz pages i)
     = (if i = 0 then ucast (offset_in_page user_addr) else 0)"
  by (simp add: sg_entry_def Let_def)

lemma sg_fill_offsets:
  "0 < i \<Longrightarrow> list_all (\<lambda>e. sg_offset e = 0) (sg_fill user_addr sz pages i nr_pages)"
proof (induction user_addr sz pages i nr_pages rule: sg_fill.induct)
  case (1 user_addr sz pages i nr_pages)
  show ?case
  proof (cases "i < nr_pages")
    case True
    with 1 show ?thesis
      by (subst sg_fill.simps) (simp add: sg_entry_offset)
  next
    case False
    then show ?thesis
      by (subst sg_fill.simps) simp
  qed
qed

section \<open>A failed mapping leaves nothing behind\<close>

lemma take_all_pinned: "int (length ps) = n \<Longrightarrow> take (nat n) ps = ps"
  by auto

lemma map_user_buffer_Inl:
  "ai_dma_map_user_buffer env km user_addr sz d = (Inl e, km') \<Longrightarrow> km' = km"
  by (auto simp: ai_dma_map_user_buffer_def Let_def kalloc_def kfree_def kvfree_def pin_pages_def
      unpin_user_pages_def take_all_pinned split: if_splits sum.splits)

lemma map_user_buffer_Inr:
  "ai_dma_map_user_buffer env km user_addr sz d = (Inr b, km') \<Longrightarrow>
     mapped_ents env \<noteq> 0 \<and>
     (\<exists>ps. pin_ret env = Inr ps \<and> int (length ps) = sint (nr_pages_of user_addr sz))"
  by (auto simp: ai_dma_map_user_buffer_def Let_def split: if_splits sum.splits)

text \<open>
  C6: a mapping that fails returns the kernel state it started from (no page pinned, no
  allocation held beyond what was there before); it does fail when fewer pages (or more)
  were pinned than requested and when \<open>dma_map_sg\<close> mapped no entry.
\<close>

theorem map_user_buffer_atomic:
  assumes "ai_dma_map_user_buffer env km user_addr sz d = (r, km')"
  shows "(isl r \<longrightarrow> km' = km)
       \<and> ((\<exists>ps. pin_ret env = Inr ps \<and> int (length ps) \<noteq> sint (nr_pages_of user_addr sz))
            \<longrightarrow> isl r \<and> km' = km)
       \<and> (mapped_ents env = 0 \<longrightarrow> isl r \<and> km' = km)"
proof -
  have a: "isl r \<Longrightarrow> km' = km"
    using assms by (cases r) (auto dest: map_user_buffer_Inl)
  have b: "\<exists>ps. pin_ret env = Inr ps \<and> int (length ps) \<noteq> sint (nr_pages_of user_addr sz) \<Longrightarrow> isl r"
    using assms by (cases r) (auto dest: map_user_buffer_Inr)
  have c: "mapped_ents env = 0 \<Longrightarrow> isl r"
    using assms by (cases r) (auto dest: map_user_buffer_Inr)
  from a b c show ?thesis by blast
qed

lemma nr_pages_of_two: "nr_pages_of 0x1064 5000 = 2"
  by (simp add: nr_pages_of_def DIV_ROUND_UP_def offset_in_page_def PAGE_SIZE_def)

lemma partial_pin_example:
  "ai_dma_map_user_buffer (map_ok [7] 0) kmem_idle 0x1064 5000 DMA_TO_DEVICE
     = (Inl EFAULT, kmem_idle)"
  by (simp add: ai_dma_map_user_buffer_def map_ok_def kmem_idle_def nr_pages_of_two
      kvmalloc_array_def kalloc_def kfree_def kvfree_def pin_pages_def
      unpin_user_pages_def Let_def)

theorem map_user_buffer_atomic_witness:
  "ai_dma_map_user_buffer (map_ok [7] 0) kmem_idle 0x1064 5000 DMA_TO_DEVICE
     = (Inl EFAULT, kmem_idle)
   \<and> pin_ret (map_ok [7] 0) = Inr [7]
   \<and> int (length [7 :: page]) \<noteq> sint (nr_pages_of 0x1064 5000)
   \<and> mapped_ents (map_ok [7] 0) = 0
   \<and> isl (Inl EFAULT :: errno + ai_dma_buffer)"
proof -
  have p: "pin_ret (map_ok [7] 0) = Inr [7]" "mapped_ents (map_ok [7] 0) = 0"
    by (simp_all add: map_ok_def)
  from map_user_buffer_atomic [OF partial_pin_example] partial_pin_example p show ?thesis
    by (simp add: nr_pages_of_two)
qed

section \<open>Channel selection\<close>

lemma find_channel_4: "find_channel st 4 = None"
  by (subst find_channel.simps) (simp add: AI_DMA_CHANNELS_def)

lemma find_channel_3:
  "find_channel st 3 = (if bit (channel_bitmap st) 3 then dma_channels st 3 else None)"
  by (subst find_channel.simps) (simp add: AI_DMA_CHANNELS_def find_channel_4 split: option.splits)

lemma find_channel_2:
  "find_channel st 2 =
     (if bit (channel_bitmap st) 2 \<and> dma_channels st 2 \<noteq> None then dma_channels st 2
      else find_channel st 3)"
  by (subst find_channel.simps) (auto simp: AI_DMA_CHANNELS_def split: option.splits)

lemma find_channel_1:
  "find_channel st (Suc 0) =
     (if bit (channel_bitmap st) (Suc 0) \<and> dma_channels st (Suc 0) \<noteq> None
      then dma_channels st (Suc 0) else find_channel st 2)"
  by (subst find_channel.simps)
     (auto simp: AI_DMA_CHANNELS_def numeral_2_eq_2 [symmetric] split: option.splits)

lemma find_channel_0:
  "find_channel st 0 =
     (if bit (channel_bitmap st) 0 \<and> dma_channels st 0 \<noteq> None then dma_channels st 0
      else find_channel st (Suc 0))"
  by (subst find_channel.simps) (auto simp: AI_DMA_CHANNELS_def split: option.splits)

lemmas find_channel_unrolled =
  find_channel_0 find_channel_1 find_channel_2 find_channel_3

lemma upt_4: "[0..<4] = [0, Suc 0, 2, 3]"
  by (simp add: upt_rec)

text \<open>
  No transfer writes the bitmap or the channel array: nothing marks a channel busy, and
  nothing gives one back.
\<close>

lemma async_pool:
  "channel_bitmap (snd (ai_dma_transfer_async env st dst src n)) = channel_bitmap st
   \<and> dma_channels (snd (ai_dma_transfer_async env st dst src n)) = dma_channels st"
  by (simp add: ai_dma_transfer_async_def dma_async_issue_pending_def
      split: option.splits sum.splits)

lemma sync_pool:
  "channel_bitmap (snd (ai_dma_transfer_sync env st dst src n t)) = channel_bitmap st
   \<and> dma_channels (snd (ai_dma_transfer_sync env st dst src n t)) = dma_channels st"
  by (simp add: ai_dma_transfer_sync_def dma_async_issue_pending_def dmaengine_terminate_sync_def
      completed_def Let_def split: option.splits sum.splits)

lemma four_channels_eq:
  "four_channels =
     \<lparr> dma_channels = (\<lambda>i. None)(0 := Some 10, Suc 0 := Some 11, 2 := Some 12, 3 := Some 13),
       channel_bitmap = 15, in_flight = [] \<rparr>"
  unfolding four_channels_def ai_dma_init_def dma_loaded_def
  apply (subst request_channels.simps, simp add: AI_DMA_CHANNELS_def)
  apply (subst request_channels.simps, simp add: AI_DMA_CHANNELS_def)
  apply (subst request_channels.simps, simp add: AI_DMA_CHANNELS_def)
  apply (subst request_channels.simps, simp add: AI_DMA_CHANNELS_def)
  apply (subst request_channels.simps, simp add: AI_DMA_CHANNELS_def Let_def)
  apply (simp add: set_bit_eq_or numeral_2_eq_2 [symmetric] numeral_3_eq_3 [symmetric])
  done

lemma find_channel_in_flight: "find_channel (st\<lparr> in_flight := x \<rparr>) 0 = find_channel st 0"
proof -
  have 3: "find_channel (st\<lparr> in_flight := x \<rparr>) 3 = find_channel st 3"
    by (simp add: find_channel_3)
  have 2: "find_channel (st\<lparr> in_flight := x \<rparr>) 2 = find_channel st 2"
    by (auto simp: find_channel_2 3)
  have 1: "find_channel (st\<lparr> in_flight := x \<rparr>) (Suc 0) = find_channel st (Suc 0)"
    by (auto simp: find_channel_1 2)
  show ?thesis
    by (auto simp: find_channel_0 1)
qed

lemma four_channels_select: "find_channel four_channels 0 = Some 10"
  by (simp add: find_channel_0 four_channels_eq)

lemma async_issued:
  "find_channel st 0 = Some chan \<Longrightarrow>
     ai_dma_transfer_async (engine c left) st dst src n
       = (Inr c, st\<lparr> in_flight := in_flight st @ [(chan, c)] \<rparr>)"
  by (simp add: ai_dma_transfer_async_def engine_def dma_async_issue_pending_def)

lemma issue_shares_channel:
  "find_channel st 0 = Some chan \<Longrightarrow>
     issue st cs = (map Inr cs, st\<lparr> in_flight := in_flight st @ map (\<lambda>c. (chan, c)) cs \<rparr>)"
proof (induction cs arbitrary: st)
  case Nil
  show ?case by simp
next
  case (Cons c cs)
  let ?st1 = "st\<lparr> in_flight := in_flight st @ [(chan, c)] \<rparr>"
  from Cons.prems have "find_channel ?st1 0 = Some chan"
    by (simp add: find_channel_in_flight)
  from Cons.IH [OF this] Cons.prems show ?case
    by (simp add: async_issued)
qed

text \<open>
  C7 fails on the code: the search loop reads \<open>channel_bitmap\<close> under \<open>channel_lock\<close> to
  find an available channel, but no transfer clears the bit of the channel it took. With
  all four channels of the pool obtained, five asynchronous transfers issued one after the
  other all succeed (none returns \<open>-ENODEV\<close>), and all five are in flight at once on channel
  10, the first of the pool, while channels 11, 12 and 13 stay idle.
\<close>

theorem channel_shared_by_in_flight_transfers:
  "issue four_channels [1, 2, 3, 4, 5]
     = ([Inr 1, Inr 2, Inr 3, Inr 4, Inr 5],
        four_channels\<lparr> in_flight := [(10, 1), (10, 2), (10, 3), (10, 4), (10, 5)] \<rparr>)"
  using issue_shares_channel [OF four_channels_select, of "[1, 2, 3, 4, 5]"]
  by (simp add: four_channels_eq)

lemma free_channels_four: "free_channels four_channels = [0, Suc 0, 2, 3]"
  by (simp add: free_channels_def four_channels_eq AI_DMA_CHANNELS_def upt_4)

section \<open>A synchronous transfer that times out\<close>

text \<open>
  C8: when a synchronous transfer was issued on its channel and the wait times out, the call
  terminates everything in flight on that channel before it returns, returns \<open>-ETIMEDOUT\<close>,
  and the channels that can be selected are the same, and as many, as before the call.
\<close>

theorem sync_timeout_terminates:
  assumes "find_channel st 0 = Some chan" and "prep_ok env" and "submit_ret env = Inr cookie"
    and "wait_ret env = 0"
  shows "fst (ai_dma_transfer_sync env st dst src n t) = Inl ETIMEDOUT
       \<and> transfers_on chan (snd (ai_dma_transfer_sync env st dst src n t)) = []
       \<and> in_flight (snd (ai_dma_transfer_sync env st dst src n t))
           = filter (\<lambda>d. fst d \<noteq> chan) (in_flight st)
       \<and> free_channels (snd (ai_dma_transfer_sync env st dst src n t)) = free_channels st
       \<and> length (free_channels (snd (ai_dma_transfer_sync env st dst src n t)))
           = length (free_channels st)
       \<and> find_channel (snd (ai_dma_transfer_sync env st dst src n t)) 0 = Some chan"
proof -
  have r: "ai_dma_transfer_sync env st dst src n t
      = (Inl ETIMEDOUT, st\<lparr> in_flight := filter (\<lambda>d. fst d \<noteq> chan) (in_flight st) \<rparr>)"
    using assms
    by (simp add: ai_dma_transfer_sync_def dma_async_issue_pending_def
        dmaengine_terminate_sync_def)
  show ?thesis
    unfolding r using assms(1)
    by (simp add: transfers_on_def free_channels_def find_channel_in_flight)
qed

text \<open>
  The \<open>int ret\<close> of the function keeps the low 32 bits of the wait's result: a result of
  \<open>2 ^ 32\<close> jiffies left takes the timeout path as well.
\<close>

lemma sync_wait_truncated:
  "fst (ai_dma_transfer_sync (engine 1 4294967296) four_channels 0 0 16 0) = Inl ETIMEDOUT"
  by (simp add: ai_dma_transfer_sync_def engine_def four_channels_select)

theorem sync_timeout_terminates_witness:
  "find_channel four_channels 0 = Some 10
   \<and> prep_ok (engine 1 0) \<and> submit_ret (engine 1 0) = Inr 1 \<and> wait_ret (engine 1 0) = 0
   \<and> fst (ai_dma_transfer_sync (engine 1 0) four_channels 0 0 16 0) = Inl ETIMEDOUT
   \<and> in_flight (snd (ai_dma_transfer_sync (engine 1 0) four_channels 0 0 16 0)) = []
   \<and> free_channels (snd (ai_dma_transfer_sync (engine 1 0) four_channels 0 0 16 0))
       = [0, Suc 0, 2, 3]"
proof -
  have e: "prep_ok (engine 1 0)" "submit_ret (engine 1 0) = Inr 1" "wait_ret (engine 1 0) = 0"
    by (simp_all add: engine_def)
  have i: "in_flight four_channels = []"
    by (simp add: four_channels_eq)
  from sync_timeout_terminates [OF four_channels_select e, of 0 0 16 0] e i show ?thesis
    by (simp add: four_channels_select free_channels_four)
qed

section \<open>The second resource manager\<close>

text \<open>
  C4 fails on the code: with buffers A (handle 0x10000) and B (handle 0x20000) of 4096 bytes
  allocated, freeing A twice returns success both times, and the second free takes the
  used-memory counter from 4096 to 0 although B is still allocated.
\<close>

theorem free_memory_accepts_double_free:
  "ai_ioctl_alloc_memory (Some 0x10000) (ctx_used 0) mem_alloc_arg
     = (Inr \<lparr> alloc_size = 4096, alloc_handle = 0x10000 \<rparr>, ctx_used 4096)
   \<and> ai_ioctl_alloc_memory (Some 0x20000) (ctx_used 4096) mem_alloc_arg
     = (Inr \<lparr> alloc_size = 4096, alloc_handle = 0x20000 \<rparr>, ctx_used 8192)
   \<and> ai_ioctl_free_memory (ctx_used 8192) (mem_free_arg 0x10000 4096) = (Inr (), ctx_used 4096)
   \<and> ai_ioctl_free_memory (ctx_used 4096) (mem_free_arg 0x10000 4096) = (Inr (), ctx_used 0)"
  by (simp add: ai_ioctl_alloc_memory_def ai_ioctl_free_memory_def ctx_used_def mem_alloc_arg_def
      mem_free_arg_def copy_from_user_def copy_to_user_def PAGE_ALIGN_def PAGE_SIZE_def Let_def)

text \<open>
  The free handler of the main module, by contrast, rejects a handle that the buffer table
  does not resolve: it returns \<open>-EINVAL\<close> and leaves the device as it was, and so does
  the second free of a handle.
\<close>

lemma ai_ioctl_free_unknown:
  "copy_from_user arg = Some req \<Longrightarrow> idr_find (buffer_idr dev) (free_handle req) = None \<Longrightarrow>
     ai_ioctl_free env dev arg = (Inl EINVAL, dev)"
  by (simp add: ai_ioctl_free_def)

lemma idr_find_removed: "idr_find (idr_remove idr h) h = None"
  by (auto simp: idr_find_def idr_remove_def map_of_eq_None_iff)

lemma ai_ioctl_free_twice:
  "ai_ioctl_free env dev arg = (Inr u, dev') \<Longrightarrow> ai_ioctl_free env' dev' arg = (Inl EINVAL, dev')"
  by (auto simp: ai_ioctl_free_def idr_find_removed split: option.splits)

text \<open>
  C9 fails on the code: for every fence and every timeout, on any context, the wait returns at
  once with \<open>AI_STATUS_SUCCESS\<close>; it looks no job up, so a fence that was never issued is
  reported as a completed job.
\<close>

theorem wait_completion_always_succeeds:
  "ai_ioctl_wait_completion ctx
       (UserPtr (Some \<lparr> wait_fence = f, wait_timeout_ns = t, wait_status = s, wait_result = r \<rparr>) True)
     = (Inr \<lparr> wait_fence = f, wait_timeout_ns = t, wait_status = AI_STATUS_SUCCESS, wait_result = 0 \<rparr>,
        ctx)"
  by (simp add: ai_ioctl_wait_completion_def copy_from_user_def copy_to_user_def)

end
